theory Spec2Isabelle
  imports Main
begin

section \<open>Turn lifecycle orchestration of CodexMonitor\<close>

text \<open>
  The development embeds the two React hooks that drive a turn:
  \<^verbatim>\<open>useThreadMessaging\<close> (the commands \<^verbatim>\<open>sendMessageToThread\<close>, \<^verbatim>\<open>interruptTurn\<close>,
  \<^verbatim>\<open>startReview\<close>) and \<^verbatim>\<open>useThreadTurnEvents\<close> (the handlers \<^verbatim>\<open>onTurnStarted\<close>,
  \<^verbatim>\<open>onTurnCompleted\<close>, \<^verbatim>\<open>onTurnError\<close>). Every mutation the hooks perform is
  a function from state to state. An asynchronous command is cut at its \<^verbatim>\<open>await\<close>:
  the outcome of the remote call is an argument of the part that runs after it.
  A callback reads the store through the snapshot of the latest render; the model
  takes that snapshot to be the state in which the callback is invoked.
\<close>

subsection \<open>Data\<close>

record thread_status =
  isProcessing :: bool
  hasUnread :: bool
  isReviewing :: bool

text \<open>
  An item of a thread. The optimistic user item of \<^verbatim>\<open>sendMessageToThread\<close> carries
  the id built by the caller; a message appended by the store is named by the store
  itself, which is recorded as \<open>None\<close>.
\<close>

record item =
  item_id :: "string option"
  item_kind :: string
  item_role :: string
  item_text :: string

datatype access_mode = ReadOnly | Current | FullAccess

text \<open>The remote calls of \<^verbatim>\<open>services/tauri\<close>, in the order of their arguments.\<close>

datatype rpc_call =
    SendUserMessage string string string "string option" "string option"
      "string option" "access_mode option" "string list"
  | InterruptTurn string string string
  | StartReview string string string string

text \<open>A promise either rejects with the text of its error or resolves with a value.\<close>

datatype 'a rpc_outcome = Rejected string | Resolved 'a

text \<open>
  The response of the start-turn and start-review calls, in the shape the source
  reads: \<^verbatim>\<open>response.error\<close>, \<^verbatim>\<open>response.result\<close>, \<^verbatim>\<open>result.turn\<close>,
  \<^verbatim>\<open>response.turn\<close> and \<^verbatim>\<open>turn.id\<close>, each of which may be absent.
\<close>

record turn_obj =
  turn_id :: "string option"

record result_obj =
  res_error :: "string option"
  res_turn :: "turn_obj option"

record response =
  resp_error :: "string option"
  resp_result :: "result_obj option"
  resp_turn :: "turn_obj option"

text \<open>
  The result of \<^verbatim>\<open>expandCustomPromptText\<close>: \<^verbatim>\<open>null\<close>, an object with an
  \<^verbatim>\<open>error\<close>, or an object with the expanded text.
\<close>

datatype prompt_expansion = NoExpansion | ExpansionError string | Expanded string

text \<open>
  \<^verbatim>\<open>SendMessageOptions\<close>. A field that may be \<^verbatim>\<open>undefined\<close> is an option whose
  \<open>None\<close> is \<^verbatim>\<open>undefined\<close>; a field that may also be \<^verbatim>\<open>null\<close> nests a second option.
\<close>

record send_options =
  skipPromptExpansion :: bool
  opt_model :: "string option option"
  opt_effort :: "string option option"
  opt_collaborationMode :: "string option option"
  opt_accessMode :: "access_mode option"

text \<open>
  The arguments of the hook \<^verbatim>\<open>useThreadMessaging\<close> that are plain values. A
  workspace is represented by its id, the only field the commands read. The custom
  prompts are part of \<open>expandCustomPromptText\<close>; \<open>hasOnDebug\<close> says whether the
  optional \<^verbatim>\<open>onDebug\<close> sink was supplied.
\<close>

record props =
  activeWorkspace :: "string option"
  activeThreadId :: "string option"
  accessMode :: "access_mode option"
  model :: "string option"
  effort :: "string option"
  collaborationMode :: "string option"
  steerEnabled :: bool
  hasOnDebug :: bool
  expandCustomPromptText :: "string \<Rightarrow> prompt_expansion"
  parseReviewTarget :: "string \<Rightarrow> string"

text \<open>
  What \<^verbatim>\<open>Date.now()\<close> and the random suffix contribute to one call of
  \<^verbatim>\<open>sendMessageToThread\<close>: the timestamp and the id of the optimistic item.
\<close>

record clock =
  timestamp :: nat
  optimisticId :: string

text \<open>
  The state the hooks act on: the thread store, the set behind
  \<^verbatim>\<open>pendingInterruptsRef\<close>, and the two traces of what left the client (remote calls
  issued, debug entries as source and label). The store maps are read by the source as
  \<^verbatim>\<open>threadStatusById[id]?.isProcessing ?? false\<close> and
  \<^verbatim>\<open>activeTurnIdByThread[id] ?? null\<close>, so a missing key and its default are one value here.
\<close>

record state =
  threadsByWorkspace :: "string \<Rightarrow> string set"
  itemsByThread :: "string \<Rightarrow> item list"
  threadStatusById :: "string \<Rightarrow> thread_status"
  activeTurnIdByThread :: "string \<Rightarrow> string option"
  timestampByThread :: "string \<times> string \<Rightarrow> nat option"
  pendingInterrupts :: "string set"
  rpcLog :: "rpc_call list"
  debugLog :: "(string \<times> string) list"

subsection \<open>The thread store\<close>

text \<open>
  The reducer \<^verbatim>\<open>useThreadsReducer\<close> and the callbacks \<^verbatim>\<open>markProcessing\<close>,
  \<^verbatim>\<open>markReviewing\<close>, \<^verbatim>\<open>setActiveTurnId\<close> and \<^verbatim>\<open>pushThreadErrorMessage\<close> that the
  hooks receive are not among the sources; each mutation below follows section 4.1 of the
  specification, where every mutation is a total function of the previous state.
\<close>

text \<open>
  Modelled from the spec: the reducer case \<^verbatim>\<open>ensureThread\<close> is missing;
  ``ensure-thread-exists (idempotent)'', a thread belonging to exactly one workspace.
\<close>

definition ensureThread :: "string \<Rightarrow> string \<Rightarrow> state \<Rightarrow> state" where
  "ensureThread workspaceId threadId s =
     s\<lparr>threadsByWorkspace := (threadsByWorkspace s)
          (workspaceId := insert threadId (threadsByWorkspace s workspaceId))\<rparr>"

text \<open>
  Modelled from the spec: the reducer case \<^verbatim>\<open>upsertItem\<close> is missing; ``upsert-item
  (insert or replace by id, preserving sequence order -- new ids append)''.
\<close>

fun upsert :: "item \<Rightarrow> item list \<Rightarrow> item list" where
  "upsert new [] = [new]"
| "upsert new (i # is) =
     (if item_id i = item_id new then new # is else i # upsert new is)"

definition upsertItem :: "string \<Rightarrow> string \<Rightarrow> item \<Rightarrow> state \<Rightarrow> state" where
  "upsertItem workspaceId threadId new s =
     s\<lparr>itemsByThread := (itemsByThread s)
          (threadId := upsert new (itemsByThread s threadId))\<rparr>"

text \<open>
  Modelled from the spec: the reducer case \<^verbatim>\<open>setThreadTimestamp\<close> is missing;
  ``set-thread-timestamp'', the last-activity timestamp of a thread.
\<close>

definition setThreadTimestamp :: "string \<Rightarrow> string \<Rightarrow> nat \<Rightarrow> state \<Rightarrow> state" where
  "setThreadTimestamp workspaceId threadId ts s =
     s\<lparr>timestampByThread := (timestampByThread s)((workspaceId, threadId) := Some ts)\<rparr>"

text \<open>
  Modelled from the spec: the callback \<^verbatim>\<open>markProcessing\<close> is missing;
  ``set-processing-flag'' on the status of the thread.
\<close>

definition markProcessing :: "string \<Rightarrow> bool \<Rightarrow> state \<Rightarrow> state" where
  "markProcessing threadId b s =
     s\<lparr>threadStatusById := (threadStatusById s)
          (threadId := (threadStatusById s threadId)\<lparr>isProcessing := b\<rparr>)\<rparr>"

text \<open>
  Modelled from the spec: the callback \<^verbatim>\<open>markReviewing\<close> is missing;
  ``set-reviewing-flag'' on the status of the thread.
\<close>

definition markReviewing :: "string \<Rightarrow> bool \<Rightarrow> state \<Rightarrow> state" where
  "markReviewing threadId b s =
     s\<lparr>threadStatusById := (threadStatusById s)
          (threadId := (threadStatusById s threadId)\<lparr>isReviewing := b\<rparr>)\<rparr>"

text \<open>
  Modelled from the spec: the callback \<^verbatim>\<open>setActiveTurnId\<close> is missing;
  ``set-active-turn-id'', where \<open>None\<close> is \<^verbatim>\<open>null\<close>.
\<close>

definition setActiveTurnId :: "string \<Rightarrow> string option \<Rightarrow> state \<Rightarrow> state" where
  "setActiveTurnId threadId turnId s =
     s\<lparr>activeTurnIdByThread := (activeTurnIdByThread s)(threadId := turnId)\<rparr>"

text \<open>
  Modelled from the spec: the reducer case \<^verbatim>\<open>addAssistantMessage\<close> is missing;
  ``append-system/assistant-message'': a message item with the given text is appended to
  the thread's item sequence.
\<close>

definition assistantMessage :: "string \<Rightarrow> item" where
  "assistantMessage msg =
     \<lparr>item_id = None, item_kind = ''message'', item_role = ''assistant'', item_text = msg\<rparr>"

definition addAssistantMessage :: "string \<Rightarrow> string \<Rightarrow> state \<Rightarrow> state" where
  "addAssistantMessage threadId msg s =
     s\<lparr>itemsByThread := (itemsByThread s)
          (threadId := itemsByThread s threadId @ [assistantMessage msg])\<rparr>"

text \<open>
  Modelled from the spec: the callback \<^verbatim>\<open>pushThreadErrorMessage\<close> is missing; section 7:
  ``all thread-scoped errors are appended as a system/assistant-style Item in that
  thread's item sequence''.
\<close>

definition pushThreadErrorMessage :: "string \<Rightarrow> string \<Rightarrow> state \<Rightarrow> state" where
  "pushThreadErrorMessage threadId msg s = addAssistantMessage threadId msg s"

subsection \<open>Helpers of the hooks\<close>

text \<open>
  Modelled from the spec: \<^verbatim>\<open>extractRpcErrorMessage\<close> of \<^verbatim>\<open>utils/threadNormalize\<close>
  is missing. Section 6: an \<^verbatim>\<open>error\<close> ``present at top level or nested under
  \<^verbatim>\<open>result\<close> signals failure''. The helper returns a text whenever an error is present,
  the top-level one first, and \<^verbatim>\<open>null\<close> otherwise; an error that carries no text of its
  own is reported under a generic one, so that a present error is never taken for none.
\<close>

definition errorText :: "string \<Rightarrow> string" where
  "errorText e = (if e = [] then ''Request failed.'' else e)"

definition extractRpcErrorMessage :: "response \<Rightarrow> string option" where
  "extractRpcErrorMessage r =
     (case resp_error r of
        Some e \<Rightarrow> Some (errorText e)
      | None \<Rightarrow>
          (case resp_result r of
             Some res \<Rightarrow> map_option errorText (res_error res)
           | None \<Rightarrow> None))"

text \<open>
  Modelled from the spec: \<^verbatim>\<open>asString\<close> of \<^verbatim>\<open>utils/threadNormalize\<close> is missing; it
  is applied to the turn id of a response, which section 6 gives as a text, and on a
  text it is the identity.
\<close>

definition asString :: "string \<Rightarrow> string" where
  "asString v = v"

text \<open>
  \<^verbatim>\<open>String.prototype.trim\<close> on the white space that a byte string can hold:
  space, tab, line feed, vertical tab, form feed and carriage return.
\<close>

definition isSpace :: "char \<Rightarrow> bool" where
  "isSpace c \<longleftrightarrow> c \<in> {CHR '' '', CHR 0x09, CHR 0x0A, CHR 0x0B, CHR 0x0C, CHR 0x0D}"

definition trim :: "string \<Rightarrow> string" where
  "trim s = rev (dropWhile isSpace (rev (dropWhile isSpace s)))"

text \<open>\<^verbatim>\<open>onDebug?.(entry)\<close>: the entry is recorded when the sink was supplied.\<close>

definition onDebug :: "props \<Rightarrow> string \<times> string \<Rightarrow> state \<Rightarrow> state" where
  "onDebug p entry s = (if hasOnDebug p then s\<lparr>debugLog := debugLog s @ [entry]\<rparr> else s)"

definition callRpc :: "rpc_call \<Rightarrow> state \<Rightarrow> state" where
  "callRpc c s = s\<lparr>rpcLog := rpcLog s @ [c]\<rparr>"

text \<open>
  The turn id the source reads out of a start-turn response:
  \<^verbatim>\<open>result = response?.result ?? response\<close>,
  \<^verbatim>\<open>turn = result?.turn ?? response?.turn ?? null\<close>,
  \<^verbatim>\<open>turnId = asString(turn?.id ?? "")\<close>.
\<close>

definition responseTurn :: "response \<Rightarrow> turn_obj option" where
  "responseTurn r =
     (case resp_result r of
        Some res \<Rightarrow> (case res_turn res of Some t \<Rightarrow> Some t | None \<Rightarrow> resp_turn r)
      | None \<Rightarrow> resp_turn r)"

definition responseTurnId :: "response \<Rightarrow> string" where
  "responseTurnId r =
     asString (case responseTurn r of
                 Some t \<Rightarrow> (case turn_id t of Some i \<Rightarrow> i | None \<Rightarrow> [])
               | None \<Rightarrow> [])"

text \<open>\<^verbatim>\<open>options?.f !== undefined ? options.f : f\<close>.\<close>

definition resolveOption :: "(send_options \<Rightarrow> 'a option) \<Rightarrow> send_options option \<Rightarrow> 'a \<Rightarrow> 'a" where
  "resolveOption sel options dflt =
     (case options of
        None \<Rightarrow> dflt
      | Some opts \<Rightarrow> (case sel opts of None \<Rightarrow> dflt | Some v \<Rightarrow> v))"

subsection \<open>Commands of \<^verbatim>\<open>useThreadMessaging\<close>\<close>

text \<open>
  \<^verbatim>\<open>sendMessageToThread\<close> up to its \<^verbatim>\<open>await\<close>. The result says whether the start-turn
  call was issued. The telemetry counter, \<^verbatim>\<open>recordThreadActivity\<close> and
  \<^verbatim>\<open>safeMessageActivity\<close> act outside the state and are left out, as is the
  \<^verbatim>\<open>hasCustomName\<close> flag of the upsert, which only concerns the thread's display name.
\<close>

definition finalTextOf :: "props \<Rightarrow> send_options option \<Rightarrow> string \<Rightarrow> string + string" where
  "finalTextOf p options messageText =
     (if (case options of None \<Rightarrow> False | Some opts \<Rightarrow> skipPromptExpansion opts)
      then Inr messageText
      else (case expandCustomPromptText p messageText of
              ExpansionError e \<Rightarrow> Inl e
            | Expanded x \<Rightarrow> Inr x
            | NoExpansion \<Rightarrow> Inr messageText))"

definition sendMessageToThread_issue ::
  "props \<Rightarrow> clock \<Rightarrow> string \<Rightarrow> string \<Rightarrow> string \<Rightarrow> string list \<Rightarrow> send_options option
     \<Rightarrow> state \<Rightarrow> bool \<times> state" where
  "sendMessageToThread_issue p clk workspaceId threadId body images options s =
     (let messageText = trim body in
      if messageText = [] \<and> images = [] then (False, s)
      else
        (case finalTextOf p options messageText of
           Inl e \<Rightarrow> (False, pushThreadErrorMessage threadId e s)
         | Inr finalText \<Rightarrow>
             (let resolvedModel = resolveOption opt_model options (model p);
                  resolvedEffort = resolveOption opt_effort options (effort p);
                  resolvedCollaborationMode =
                    resolveOption opt_collaborationMode options (collaborationMode p);
                  resolvedAccessMode =
                    (case options of
                       None \<Rightarrow> accessMode p
                     | Some opts \<Rightarrow>
                         (case opt_accessMode opts of None \<Rightarrow> accessMode p | Some a \<Rightarrow> Some a));
                  wasProcessing = (isProcessing (threadStatusById s threadId) \<and> steerEnabled p);
                  optimisticText =
                    (if finalText \<noteq> [] then finalText
                     else if images \<noteq> [] then ''[image]'' else []);
                  s1 = (if wasProcessing \<and> optimisticText \<noteq> []
                        then upsertItem workspaceId threadId
                               \<lparr>item_id = Some (optimisticId clk), item_kind = ''message'',
                                item_role = ''user'', item_text = optimisticText\<rparr> s
                        else s);
                  s2 = setThreadTimestamp workspaceId threadId (timestamp clk) s1;
                  s3 = markProcessing threadId True s2;
                  s4 = onDebug p (''client'', ''turn/start'') s3
              in (True,
                  callRpc (SendUserMessage workspaceId threadId finalText resolvedModel
                             resolvedEffort resolvedCollaborationMode resolvedAccessMode images)
                    s4))))"

text \<open>
  The rest of \<^verbatim>\<open>sendMessageToThread\<close>, run when the start-turn call settles, on the
  state of that moment.
\<close>

definition sendMessageToThread_settle ::
  "props \<Rightarrow> string \<Rightarrow> response rpc_outcome \<Rightarrow> state \<Rightarrow> state" where
  "sendMessageToThread_settle p threadId outcome s =
     (case outcome of
        Rejected err \<Rightarrow>
          pushThreadErrorMessage threadId err
            (onDebug p (''error'', ''turn/start error'')
               (setActiveTurnId threadId None (markProcessing threadId False s)))
      | Resolved resp \<Rightarrow>
          (let s1 = onDebug p (''server'', ''turn/start response'') s;
               rpcError = extractRpcErrorMessage resp
           in if rpcError \<noteq> None \<and> rpcError \<noteq> Some []
              then pushThreadErrorMessage threadId (''Turn failed to start: '' @ the rpcError)
                     (setActiveTurnId threadId None (markProcessing threadId False s1))
              else
                (let turnId = responseTurnId resp
                 in if turnId = []
                    then pushThreadErrorMessage threadId ''Turn failed to start.''
                           (setActiveTurnId threadId None (markProcessing threadId False s1))
                    else setActiveTurnId threadId (Some turnId) s1)))"

text \<open>The whole command when nothing else happens while the call is in flight.\<close>

definition sendMessageToThread ::
  "props \<Rightarrow> clock \<Rightarrow> string \<Rightarrow> string \<Rightarrow> string \<Rightarrow> string list \<Rightarrow> send_options option
     \<Rightarrow> response rpc_outcome \<Rightarrow> state \<Rightarrow> state" where
  "sendMessageToThread p clk workspaceId threadId body images options outcome s =
     (case sendMessageToThread_issue p clk workspaceId threadId body images options s of
        (True, s1) \<Rightarrow> sendMessageToThread_settle p threadId outcome s1
      | (False, s1) \<Rightarrow> s1)"

text \<open>
  \<^verbatim>\<open>interruptTurn\<close> up to its \<^verbatim>\<open>await\<close>. The guard \<^verbatim>\<open>!activeThreadId\<close> also holds
  for the empty id, and \<^verbatim>\<open>!activeTurnId\<close> for an empty turn id. The result says whether
  the interrupt call was issued.
\<close>

definition interruptTurn_issue :: "props \<Rightarrow> state \<Rightarrow> bool \<times> state" where
  "interruptTurn_issue p s =
     (case activeWorkspace p of
        None \<Rightarrow> (False, s)
      | Some workspaceId \<Rightarrow>
          (case activeThreadId p of
             None \<Rightarrow> (False, s)
           | Some threadId \<Rightarrow>
               if threadId = [] then (False, s)
               else
                 (let activeTurnId = activeTurnIdByThread s threadId;
                      turnId = (case activeTurnId of None \<Rightarrow> ''pending'' | Some i \<Rightarrow> i);
                      s1 = markProcessing threadId False s;
                      s2 = setActiveTurnId threadId None s1;
                      s3 = addAssistantMessage threadId ''Session stopped.'' s2;
                      s4 = (if activeTurnId = None \<or> activeTurnId = Some []
                            then s3\<lparr>pendingInterrupts := insert threadId (pendingInterrupts s3)\<rparr>
                            else s3);
                      s5 = onDebug p (''client'', ''turn/interrupt'') s4
                  in (True, callRpc (InterruptTurn workspaceId threadId turnId) s5))))"

text \<open>
  The rest of \<^verbatim>\<open>interruptTurn\<close>: the response is logged in the \<^verbatim>\<open>try\<close> block, a
  rejection in the \<^verbatim>\<open>catch\<close> block, and nothing else is done.
\<close>

definition interruptTurn_settle :: "props \<Rightarrow> 'r rpc_outcome \<Rightarrow> state \<Rightarrow> state" where
  "interruptTurn_settle p outcome s =
     (case outcome of
        Resolved r \<Rightarrow> onDebug p (''server'', ''turn/interrupt response'') s
      | Rejected err \<Rightarrow> onDebug p (''error'', ''turn/interrupt error'') s)"

definition interruptTurn :: "props \<Rightarrow> 'r rpc_outcome \<Rightarrow> state \<Rightarrow> state" where
  "interruptTurn p outcome s =
     (case interruptTurn_issue p s of
        (True, s1) \<Rightarrow> interruptTurn_settle p outcome s1
      | (False, s1) \<Rightarrow> s1)"

text \<open>
  \<^verbatim>\<open>startReview\<close>. The thread id is what \<^verbatim>\<open>ensureThreadForActiveWorkspace\<close>
  resolved with (\<open>None\<close> for \<^verbatim>\<open>null\<close>); the outcome is that of the review call.
\<close>

definition startReview_issue :: "props \<Rightarrow> string \<Rightarrow> string option \<Rightarrow> state \<Rightarrow> bool \<times> state" where
  "startReview_issue p body ensured s =
     (case activeWorkspace p of
        None \<Rightarrow> (False, s)
      | Some workspaceId \<Rightarrow>
          if trim body = [] then (False, s)
          else
            (case ensured of
               None \<Rightarrow> (False, s)
             | Some threadId \<Rightarrow>
                 if threadId = [] then (False, s)
                 else
                   (let target = parseReviewTarget p body;
                        s1 = markProcessing threadId True s;
                        s2 = markReviewing threadId True s1;
                        s3 = onDebug p (''client'', ''review/start'') s2
                    in (True, callRpc (StartReview workspaceId threadId target ''inline'') s3))))"

definition startReview_settle :: "props \<Rightarrow> string \<Rightarrow> response rpc_outcome \<Rightarrow> state \<Rightarrow> state" where
  "startReview_settle p threadId outcome s =
     (case outcome of
        Rejected err \<Rightarrow>
          pushThreadErrorMessage threadId err
            (onDebug p (''error'', ''review/start error'')
               (markReviewing threadId False (markProcessing threadId False s)))
      | Resolved resp \<Rightarrow>
          (let s1 = onDebug p (''server'', ''review/start response'') s;
               rpcError = extractRpcErrorMessage resp
           in if rpcError \<noteq> None \<and> rpcError \<noteq> Some []
              then pushThreadErrorMessage threadId (''Review failed to start: '' @ the rpcError)
                     (setActiveTurnId threadId None
                        (markReviewing threadId False (markProcessing threadId False s1)))
              else s1))"

definition startReview ::
  "props \<Rightarrow> string \<Rightarrow> string option \<Rightarrow> response rpc_outcome \<Rightarrow> state \<Rightarrow> state" where
  "startReview p body ensured outcome s =
     (case startReview_issue p body ensured s of
        (True, s1) \<Rightarrow> startReview_settle p (the ensured) outcome s1
      | (False, s1) \<Rightarrow> s1)"

subsection \<open>Handlers of \<^verbatim>\<open>useThreadTurnEvents\<close>\<close>

definition onTurnStarted :: "string \<Rightarrow> string \<Rightarrow> string \<Rightarrow> state \<Rightarrow> state" where
  "onTurnStarted workspaceId threadId turnId s =
     (let s1 = ensureThread workspaceId threadId s
      in if threadId \<in> pendingInterrupts s1
         then
           (let s2 = s1\<lparr>pendingInterrupts := pendingInterrupts s1 - {threadId}\<rparr>
            in if turnId \<noteq> [] then callRpc (InterruptTurn workspaceId threadId turnId) s2 else s2)
         else
           (let s2 = markProcessing threadId True s1
            in if turnId \<noteq> [] then setActiveTurnId threadId (Some turnId) s2 else s2))"

definition onTurnCompleted :: "string \<Rightarrow> string \<Rightarrow> string \<Rightarrow> state \<Rightarrow> state" where
  "onTurnCompleted workspaceId threadId turnId s =
     (let s1 = markProcessing threadId False s;
          s2 = setActiveTurnId threadId None s1
      in s2\<lparr>pendingInterrupts := pendingInterrupts s2 - {threadId}\<rparr>)"

definition onTurnError :: "string \<Rightarrow> string \<Rightarrow> string \<Rightarrow> string \<Rightarrow> bool \<Rightarrow> state \<Rightarrow> state" where
  "onTurnError workspaceId threadId turnId message willRetry s =
     (if willRetry then s
      else
        (let s1 = ensureThread workspaceId threadId s;
             s2 = markProcessing threadId False s1;
             s3 = markReviewing threadId False s2;
             s4 = setActiveTurnId threadId None s3;
             msg = (if message \<noteq> [] then ''Turn failed: '' @ message else ''Turn failed.'')
         in pushThreadErrorMessage threadId msg s4))"

subsection \<open>Vocabulary of the properties\<close>

text \<open>
  A response embeds an error when \<^verbatim>\<open>error\<close> is present at top level or under
  \<^verbatim>\<open>result\<close>.
\<close>

definition errorEmbedded :: "response \<Rightarrow> bool" where
  "errorEmbedded r \<longleftrightarrow>
     resp_error r \<noteq> None \<or>
     (case resp_result r of Some res \<Rightarrow> res_error res \<noteq> None | None \<Rightarrow> False)"

fun isInterrupt :: "rpc_call \<Rightarrow> bool" where
  "isInterrupt (InterruptTurn w t i) = True"
| "isInterrupt c = False"

text \<open>
  Concrete values for the examples: a store in which nothing has happened yet, a hook
  whose active workspace and thread are \<open>ws1\<close> and \<open>t1\<close>, and two responses of the
  start calls, one carrying a turn id under \<^verbatim>\<open>result.turn.id\<close> and one carrying
  nothing.
\<close>

definition emptyState :: state where
  "emptyState =
     \<lparr>threadsByWorkspace = (\<lambda>_. {}), itemsByThread = (\<lambda>_. []),
      threadStatusById = (\<lambda>_. \<lparr>isProcessing = False, hasUnread = False, isReviewing = False\<rparr>),
      activeTurnIdByThread = (\<lambda>_. None), timestampByThread = (\<lambda>_. None),
      pendingInterrupts = {}, rpcLog = [], debugLog = []\<rparr>"

definition hookProps :: props where
  "hookProps =
     \<lparr>activeWorkspace = Some ''ws1'', activeThreadId = Some ''t1'', accessMode = None,
      model = None, effort = None, collaborationMode = None, steerEnabled = False,
      hasOnDebug = False, expandCustomPromptText = (\<lambda>_. NoExpansion),
      parseReviewTarget = (\<lambda>x. x)\<rparr>"

definition clock0 :: clock where
  "clock0 = \<lparr>timestamp = 1000, optimisticId = ''optimistic-user-1000-abc123''\<rparr>"

definition turnResponse :: "string \<Rightarrow> response" where
  "turnResponse i =
     \<lparr>resp_error = None,
      resp_result = Some \<lparr>res_error = None, res_turn = Some \<lparr>turn_id = Some i\<rparr>\<rparr>,
      resp_turn = None\<rparr>"

definition emptyResponse :: response where
  "emptyResponse = \<lparr>resp_error = None, resp_result = None, resp_turn = None\<rparr>"

text \<open>
  The race of an interrupt with a starting turn, run on the concrete values: the message
  \<open>hello\<close> is sent to \<open>t1\<close>, the user interrupts while the start call is in flight, the
  start call resolves with turn id \<open>turn-1\<close>, and the turn-started event for \<open>turn-1\<close>
  arrives.
\<close>

definition sentExample :: state where
  "sentExample =
     snd (sendMessageToThread_issue hookProps clock0 ''ws1'' ''t1'' ''hello'' [] None emptyState)"

definition raceExample :: state where
  "raceExample =
     onTurnStarted ''ws1'' ''t1'' ''turn-1''
       (sendMessageToThread_settle hookProps ''t1'' (Resolved (turnResponse ''turn-1''))
          (interruptTurn hookProps (Resolved ()) sentExample))"

text \<open>
  A review that started on \<open>t1\<close> (the review call resolved without an error), and then
  either completes or is interrupted by the user.
\<close>

definition reviewStarted :: state where
  "reviewStarted =
     startReview hookProps ''diff HEAD~1'' (Some ''t1'') (Resolved emptyResponse) emptyState"

definition reviewCompleted :: state where
  "reviewCompleted = onTurnCompleted ''ws1'' ''t1'' ''turn-1'' reviewStarted"

definition reviewInterrupted :: state where
  "reviewInterrupted = interruptTurn hookProps (Resolved ()) reviewStarted"

section \<open>Properties\<close>

lemmas store_defs = ensureThread_def upsertItem_def setThreadTimestamp_def markProcessing_def
  markReviewing_def setActiveTurnId_def addAssistantMessage_def pushThreadErrorMessage_def
  onDebug_def callRpc_def

lemmas sample_defs = emptyState_def hookProps_def clock0_def turnResponse_def emptyResponse_def

subsection \<open>Facts shared by the proofs\<close>

lemma status_unchanged:
  "\<not> isProcessing (f t) \<Longrightarrow> f(t := (f t)\<lparr>isProcessing := False\<rparr>) = f"
  by (cases "f t") (auto simp: fun_eq_iff)

lemma errorText_nonempty: "errorText e \<noteq> []"
  by (simp add: errorText_def)

lemma extract_embedded:
  "errorEmbedded r \<Longrightarrow> \<exists>e. extractRpcErrorMessage r = Some e \<and> e \<noteq> []"
  by (auto simp: errorEmbedded_def extractRpcErrorMessage_def errorText_nonempty
      split: option.splits)

lemma extract_not_embedded: "\<not> errorEmbedded r \<Longrightarrow> extractRpcErrorMessage r = None"
  by (auto simp: errorEmbedded_def extractRpcErrorMessage_def split: option.splits)

lemma issue_activeTurn:
  "activeTurnIdByThread (snd (sendMessageToThread_issue p clk w t body imgs opts s)) =
   activeTurnIdByThread s"
  by (simp add: sendMessageToThread_issue_def store_defs Let_def split: sum.splits)

lemma settle_keeps_idle:
  "\<not> isProcessing (threadStatusById s t) \<Longrightarrow>
   \<not> isProcessing (threadStatusById (sendMessageToThread_settle p t outcome s) t)"
  by (cases outcome)
    (simp_all add: sendMessageToThread_settle_def store_defs Let_def)

lemma settle_rpcLog: "rpcLog (sendMessageToThread_settle p t outcome s) = rpcLog s"
  by (cases outcome)
    (simp_all add: sendMessageToThread_settle_def store_defs Let_def)

lemma settle_pending:
  "pendingInterrupts (sendMessageToThread_settle p t outcome s) = pendingInterrupts s"
  by (cases outcome)
    (simp_all add: sendMessageToThread_settle_def store_defs Let_def)

lemma onTurnStarted_pending:
  assumes "t \<in> pendingInterrupts s" and "T \<noteq> []"
  shows "threadStatusById (onTurnStarted w t T s) = threadStatusById s"
    and "activeTurnIdByThread (onTurnStarted w t T s) = activeTurnIdByThread s"
    and "pendingInterrupts (onTurnStarted w t T s) = pendingInterrupts s - {t}"
    and "rpcLog (onTurnStarted w t T s) = rpcLog s @ [InterruptTurn w t T]"
  using assms by (simp_all add: onTurnStarted_def store_defs Let_def)

lemma interruptTurn_unknown:
  assumes "activeWorkspace p = Some w" and "activeThreadId p = Some t" and "t \<noteq> []"
    and "activeTurnIdByThread s t = None"
  shows "t \<in> pendingInterrupts (interruptTurn p outcome s)"
    and "rpcLog (interruptTurn p outcome s) = rpcLog s @ [InterruptTurn w t ''pending'']"
    and "\<not> isProcessing (threadStatusById (interruptTurn p outcome s) t)"
    and "activeTurnIdByThread (interruptTurn p outcome s) t = None"
  using assms
  by (cases outcome; simp add: interruptTurn_def interruptTurn_issue_def
      interruptTurn_settle_def store_defs Let_def)+

lemma onDebug_erased: "(onDebug p entry s)\<lparr>debugLog := d\<rparr> = s\<lparr>debugLog := d\<rparr>"
  by (simp add: onDebug_def)

lemma interruptTurn_settle_erased:
  "(interruptTurn_settle p outcome s)\<lparr>debugLog := d\<rparr> = s\<lparr>debugLog := d\<rparr>"
  by (cases outcome) (simp_all add: interruptTurn_settle_def onDebug_erased)

lemma interruptTurn_issued:
  assumes "activeWorkspace p = Some w" and "activeThreadId p = Some t" and "t \<noteq> []"
  shows "interruptTurn p outcome s = interruptTurn_settle p outcome (snd (interruptTurn_issue p s))"
  using assms by (simp add: interruptTurn_def interruptTurn_issue_def Let_def)

lemma sentExample_issued:
  "sendMessageToThread_issue hookProps clock0 ''ws1'' ''t1'' ''hello'' [] None emptyState =
   (True, sentExample)"
  by (simp add: sentExample_def sendMessageToThread_issue_def finalTextOf_def trim_def
      isSpace_def hookProps_def Let_def)

subsection \<open>Turn events\<close>


text \<open>
  C6 (retry suppression): a turn-error event with \<open>willRetry = True\<close> leaves the whole
  state as it was: statuses, active turn ids, the pending-interrupt set, the items and
  everything else.
\<close>

theorem onTurnError_willRetry_unchanged:
  "onTurnError workspaceId threadId turnId message True s = s"
  by (simp add: onTurnError_def)


text \<open>
  C7 (idempotent completion): whatever the state, after a turn-completed event the thread
  is not processing, has no active turn id and is not in the pending-interrupt set. On a
  thread that is already idle the event changes nothing, and handling the completion a
  second time gives the state reached by handling it once.
\<close>

theorem onTurnCompleted_idempotent:
  "\<not> isProcessing (threadStatusById (onTurnCompleted w t i s) t) \<and>
   activeTurnIdByThread (onTurnCompleted w t i s) t = None \<and>
   t \<notin> pendingInterrupts (onTurnCompleted w t i s) \<and>
   (\<not> isProcessing (threadStatusById s t) \<and> activeTurnIdByThread s t = None \<and>
      t \<notin> pendingInterrupts s \<longrightarrow> onTurnCompleted w t i s = s) \<and>
   onTurnCompleted w t i' (onTurnCompleted w t i s) = onTurnCompleted w t i s"
  by (auto simp: onTurnCompleted_def store_defs Let_def status_unchanged fun_upd_idem)

theorem onTurnCompleted_idempotent_witness:
  "\<not> isProcessing (threadStatusById emptyState ''t1'') \<and>
   activeTurnIdByThread emptyState ''t1'' = None \<and>
   ''t1'' \<notin> pendingInterrupts emptyState \<and>
   onTurnCompleted ''ws1'' ''t1'' ''turn-1'' emptyState = emptyState"
proof -
  have idle: "\<not> isProcessing (threadStatusById emptyState ''t1'') \<and>
      activeTurnIdByThread emptyState ''t1'' = None \<and> ''t1'' \<notin> pendingInterrupts emptyState"
    by (simp add: emptyState_def)
  with onTurnCompleted_idempotent [of "''ws1''" "''t1''" "''turn-1''" emptyState]
  show ?thesis by blast
qed

text \<open>
  C5 (terminal turn error): a turn-error event with \<open>willRetry = False\<close> leaves the thread
  known to its workspace, not processing, not reviewing and without an active turn id,
  and appends one message to the thread: \<open>Turn failed: \<close> followed by the event's
  message, or \<open>Turn failed.\<close> when that message is empty.
\<close>

theorem onTurnError_terminal:
  "t \<in> threadsByWorkspace (onTurnError w t i m False s) w \<and>
   \<not> isProcessing (threadStatusById (onTurnError w t i m False s) t) \<and>
   \<not> isReviewing (threadStatusById (onTurnError w t i m False s) t) \<and>
   activeTurnIdByThread (onTurnError w t i m False s) t = None \<and>
   itemsByThread (onTurnError w t i m False s) t =
     itemsByThread s t @
       [assistantMessage (if m = [] then ''Turn failed.'' else ''Turn failed: '' @ m)]"
  by (simp add: onTurnError_def store_defs Let_def)

text \<open>
  C9 (turn-started with an empty turn id): when the thread is in the pending-interrupt
  set, the handler takes it out of the set and issues no remote call, and neither the
  statuses nor the active turn ids change. When the thread is not in the set, the
  handler marks it processing and leaves every active turn id as it was, so no empty id
  is recorded; no remote call is issued either.
\<close>

theorem onTurnStarted_empty_turn_id:
  "(t \<in> pendingInterrupts s \<longrightarrow>
      pendingInterrupts (onTurnStarted w t [] s) = pendingInterrupts s - {t} \<and>
      rpcLog (onTurnStarted w t [] s) = rpcLog s \<and>
      threadStatusById (onTurnStarted w t [] s) = threadStatusById s \<and>
      activeTurnIdByThread (onTurnStarted w t [] s) = activeTurnIdByThread s) \<and>
   (t \<notin> pendingInterrupts s \<longrightarrow>
      isProcessing (threadStatusById (onTurnStarted w t [] s) t) \<and>
      activeTurnIdByThread (onTurnStarted w t [] s) = activeTurnIdByThread s \<and>
      rpcLog (onTurnStarted w t [] s) = rpcLog s \<and>
      pendingInterrupts (onTurnStarted w t [] s) = pendingInterrupts s)"
  by (simp add: onTurnStarted_def store_defs Let_def)

theorem onTurnStarted_empty_turn_id_witness:
  "''t1'' \<in> pendingInterrupts (emptyState\<lparr>pendingInterrupts := {''t1''}\<rparr>) \<and>
   pendingInterrupts
     (onTurnStarted ''ws1'' ''t1'' [] (emptyState\<lparr>pendingInterrupts := {''t1''}\<rparr>)) = {} \<and>
   rpcLog (onTurnStarted ''ws1'' ''t1'' [] (emptyState\<lparr>pendingInterrupts := {''t1''}\<rparr>)) = [] \<and>
   ''t1'' \<notin> pendingInterrupts emptyState \<and>
   isProcessing (threadStatusById (onTurnStarted ''ws1'' ''t1'' [] emptyState) ''t1'') \<and>
   activeTurnIdByThread (onTurnStarted ''ws1'' ''t1'' [] emptyState) ''t1'' = None"
  using
    onTurnStarted_empty_turn_id [of "''t1''" "emptyState\<lparr>pendingInterrupts := {''t1''}\<rparr>" "''ws1''"]
    onTurnStarted_empty_turn_id [of "''t1''" emptyState "''ws1''"]
  by (simp add: emptyState_def)

subsection \<open>Interrupting\<close>

text \<open>
  C10 (no active workspace or thread): when the hook has no active workspace or no
  active thread (an empty thread id counts as none), \<open>interruptTurn\<close> returns the state
  it was given: no flag, turn id, item or pending interrupt changes and no remote call
  is issued.
\<close>

theorem interruptTurn_noop:
  "activeWorkspace p = None \<or> activeThreadId p = None \<or> activeThreadId p = Some [] \<Longrightarrow>
   interruptTurn p outcome s = s"
  by (auto simp: interruptTurn_def interruptTurn_issue_def split: option.splits)

theorem interruptTurn_noop_witness:
  "activeWorkspace (hookProps\<lparr>activeWorkspace := None\<rparr>) = None \<and>
   interruptTurn (hookProps\<lparr>activeWorkspace := None\<rparr>) (Resolved ()) emptyState = emptyState"
  using interruptTurn_noop [of "hookProps\<lparr>activeWorkspace := None\<rparr>" "Resolved ()" emptyState]
  by (simp add: hookProps_def)

text \<open>
  C8 (interrupt is fire-and-forget): when the interrupt call rejects, the thread is still
  not processing, has no active turn id and has gained the message \<open>Session stopped.\<close>;
  the state differs from the one reached when the call resolves in the debug log only,
  which holds the entry of the request followed by the entry of the error.
\<close>

theorem interruptTurn_failure_keeps_stopped:
  assumes "activeWorkspace p = Some w" and "activeThreadId p = Some t" and "t \<noteq> []"
  shows "\<not> isProcessing (threadStatusById (interruptTurn p (Rejected e) s) t) \<and>
         activeTurnIdByThread (interruptTurn p (Rejected e) s) t = None \<and>
         itemsByThread (interruptTurn p (Rejected e) s) t =
           itemsByThread s t @ [assistantMessage ''Session stopped.''] \<and>
         (interruptTurn p (Rejected e) s)\<lparr>debugLog := []\<rparr> =
           (interruptTurn p (Resolved r) s)\<lparr>debugLog := []\<rparr> \<and>
         debugLog (interruptTurn p (Rejected e) s) =
           debugLog s @ (if hasOnDebug p
                         then [(''client'', ''turn/interrupt''), (''error'', ''turn/interrupt error'')]
                         else [])"
proof (intro conjI)
  show "(interruptTurn p (Rejected e) s)\<lparr>debugLog := []\<rparr> =
      (interruptTurn p (Resolved r) s)\<lparr>debugLog := []\<rparr>"
    by (simp only: interruptTurn_issued [OF assms] interruptTurn_settle_erased)
qed (use assms in \<open>simp_all add: interruptTurn_def interruptTurn_issue_def
      interruptTurn_settle_def store_defs Let_def\<close>)

theorem interruptTurn_failure_keeps_stopped_witness:
  "activeWorkspace hookProps = Some ''ws1'' \<and> activeThreadId hookProps = Some ''t1'' \<and>
   ''t1'' \<noteq> [] \<and>
   \<not> isProcessing (threadStatusById (interruptTurn hookProps (Rejected ''offline'') emptyState) ''t1'') \<and>
   activeTurnIdByThread (interruptTurn hookProps (Rejected ''offline'') emptyState) ''t1'' = None \<and>
   itemsByThread (interruptTurn hookProps (Rejected ''offline'') emptyState) ''t1'' =
     [assistantMessage ''Session stopped.'']"
proof -
  have w: "activeWorkspace hookProps = Some ''ws1''"
    and t: "activeThreadId hookProps = Some ''t1''"
    by (simp_all add: hookProps_def)
  have n: "''t1'' \<noteq> []" by simp
  have i: "itemsByThread emptyState ''t1'' = []" by (simp add: emptyState_def)
  note th = interruptTurn_failure_keeps_stopped [OF w t n, of "''offline''" emptyState "()"]
  show ?thesis
    using w t i th [THEN conjunct1] th [THEN conjunct2, THEN conjunct1]
      th [THEN conjunct2, THEN conjunct2, THEN conjunct1]
    by simp
qed

text \<open>
  C2, as the claim states it, fails: on the concrete hook and the empty store, where no
  turn id is known for \<open>t1\<close>, \<open>interruptTurn\<close> does issue an interrupt call, carrying the
  placeholder turn id \<open>pending\<close>.
\<close>

theorem interruptTurn_unknown_turn_calls_rpc:
  "activeTurnIdByThread emptyState ''t1'' = None \<and>
   rpcLog (interruptTurn hookProps (Resolved ()) emptyState) =
     [InterruptTurn ''ws1'' ''t1'' ''pending'']"
  by (simp add: interruptTurn_def interruptTurn_issue_def interruptTurn_settle_def store_defs
      Let_def sample_defs)

text \<open>
  C2, amended: when \<open>interruptTurn\<close> runs on the active thread and no turn id is known for
  it, the thread id is recorded in the pending-interrupt set and one interrupt call is
  issued with the placeholder turn id \<open>pending\<close>; the thread is set to not processing
  with no active turn id, and the message \<open>Session stopped.\<close> is appended.
\<close>

theorem interruptTurn_unknown_turn:
  assumes "activeWorkspace p = Some w" and "activeThreadId p = Some t" and "t \<noteq> []"
    and "activeTurnIdByThread s t = None"
  shows "t \<in> pendingInterrupts (interruptTurn p outcome s) \<and>
         rpcLog (interruptTurn p outcome s) = rpcLog s @ [InterruptTurn w t ''pending''] \<and>
         \<not> isProcessing (threadStatusById (interruptTurn p outcome s) t) \<and>
         activeTurnIdByThread (interruptTurn p outcome s) t = None \<and>
         itemsByThread (interruptTurn p outcome s) t =
           itemsByThread s t @ [assistantMessage ''Session stopped.'']"
  using assms
  by (cases outcome)
    (simp_all add: interruptTurn_def interruptTurn_issue_def interruptTurn_settle_def store_defs
      Let_def)

theorem interruptTurn_unknown_turn_witness:
  "activeWorkspace hookProps = Some ''ws1'' \<and> activeThreadId hookProps = Some ''t1'' \<and>
   ''t1'' \<noteq> [] \<and> activeTurnIdByThread emptyState ''t1'' = None \<and>
   ''t1'' \<in> pendingInterrupts (interruptTurn hookProps (Resolved ()) emptyState) \<and>
   \<not> isProcessing (threadStatusById (interruptTurn hookProps (Resolved ()) emptyState) ''t1'')"
proof -
  have w: "activeWorkspace hookProps = Some ''ws1''"
    and t: "activeThreadId hookProps = Some ''t1''"
    by (simp_all add: hookProps_def)
  have n: "''t1'' \<noteq> []" by simp
  have a: "activeTurnIdByThread emptyState ''t1'' = None" by (simp add: emptyState_def)
  from interruptTurn_unknown_turn [OF w t n a, of "Resolved ()"]
  show ?thesis using w t a by simp
qed


subsection \<open>Sending a message\<close>

text \<open>
  C4 (reconciliation of \<open>sendMessageToThread\<close>): the part of the command that runs when
  the start call settles is applied to the state of that moment. When the call rejects,
  when the response embeds an error at top level or under \<open>result\<close>, or when it carries
  no turn id, the thread is set to not processing, its active turn id is cleared and one
  error message is appended to it. When the response carries a turn id and no error,
  that id becomes the thread's active turn id. A command whose call was issued is this
  part applied to the state the first part left. The turn id of a response is the one
  under \<open>result.turn.id\<close> when that is present.
\<close>

theorem sendMessageToThread_reconciles:
  "(\<not> isProcessing (threadStatusById (sendMessageToThread_settle p t (Rejected e) s) t) \<and>
    activeTurnIdByThread (sendMessageToThread_settle p t (Rejected e) s) t = None \<and>
    itemsByThread (sendMessageToThread_settle p t (Rejected e) s) t =
      itemsByThread s t @ [assistantMessage e]) \<and>
   (errorEmbedded r \<longrightarrow>
      \<not> isProcessing (threadStatusById (sendMessageToThread_settle p t (Resolved r) s) t) \<and>
      activeTurnIdByThread (sendMessageToThread_settle p t (Resolved r) s) t = None \<and>
      itemsByThread (sendMessageToThread_settle p t (Resolved r) s) t =
        itemsByThread s t @
          [assistantMessage (''Turn failed to start: '' @ the (extractRpcErrorMessage r))]) \<and>
   (\<not> errorEmbedded r \<and> responseTurnId r = [] \<longrightarrow>
      \<not> isProcessing (threadStatusById (sendMessageToThread_settle p t (Resolved r) s) t) \<and>
      activeTurnIdByThread (sendMessageToThread_settle p t (Resolved r) s) t = None \<and>
      itemsByThread (sendMessageToThread_settle p t (Resolved r) s) t =
        itemsByThread s t @ [assistantMessage ''Turn failed to start.'']) \<and>
   (\<not> errorEmbedded r \<and> responseTurnId r \<noteq> [] \<longrightarrow>
      activeTurnIdByThread (sendMessageToThread_settle p t (Resolved r) s) t =
        Some (responseTurnId r)) \<and>
   (resp_result r = Some res \<and> res_turn res = Some tn \<and> turn_id tn = Some i \<longrightarrow>
      responseTurnId r = i) \<and>
   (fst (sendMessageToThread_issue p clk w t body imgs opts s) \<longrightarrow>
      sendMessageToThread p clk w t body imgs opts outcome s =
        sendMessageToThread_settle p t outcome
          (snd (sendMessageToThread_issue p clk w t body imgs opts s)))"
proof (intro conjI impI)
  assume "resp_result r = Some res \<and> res_turn res = Some tn \<and> turn_id tn = Some i"
  then show "responseTurnId r = i"
    by (simp add: responseTurnId_def responseTurn_def asString_def)
next
  assume "errorEmbedded r"
  then obtain m where m: "extractRpcErrorMessage r = Some m" "m \<noteq> []"
    using extract_embedded by blast
  then show "\<not> isProcessing (threadStatusById (sendMessageToThread_settle p t (Resolved r) s) t)"
    "activeTurnIdByThread (sendMessageToThread_settle p t (Resolved r) s) t = None"
    "itemsByThread (sendMessageToThread_settle p t (Resolved r) s) t =
        itemsByThread s t @
          [assistantMessage (''Turn failed to start: '' @ the (extractRpcErrorMessage r))]"
    by (simp_all add: sendMessageToThread_settle_def store_defs Let_def)
next
  assume a: "\<not> errorEmbedded r \<and> responseTurnId r = []"
  then have "extractRpcErrorMessage r = None" using extract_not_embedded by blast
  with a show "\<not> isProcessing (threadStatusById (sendMessageToThread_settle p t (Resolved r) s) t)"
    "activeTurnIdByThread (sendMessageToThread_settle p t (Resolved r) s) t = None"
    "itemsByThread (sendMessageToThread_settle p t (Resolved r) s) t =
        itemsByThread s t @ [assistantMessage ''Turn failed to start.'']"
    by (simp_all add: sendMessageToThread_settle_def store_defs Let_def)
next
  assume a: "\<not> errorEmbedded r \<and> responseTurnId r \<noteq> []"
  then have "extractRpcErrorMessage r = None" using extract_not_embedded by blast
  with a show "activeTurnIdByThread (sendMessageToThread_settle p t (Resolved r) s) t =
        Some (responseTurnId r)"
    by (simp add: sendMessageToThread_settle_def store_defs Let_def)
next
  assume "fst (sendMessageToThread_issue p clk w t body imgs opts s)"
  then show "sendMessageToThread p clk w t body imgs opts outcome s =
        sendMessageToThread_settle p t outcome
          (snd (sendMessageToThread_issue p clk w t body imgs opts s))"
    by (cases "sendMessageToThread_issue p clk w t body imgs opts s")
      (simp add: sendMessageToThread_def)
qed (simp_all add: sendMessageToThread_settle_def store_defs Let_def)

theorem sendMessageToThread_reconciles_witness:
  "errorEmbedded (emptyResponse\<lparr>resp_error := Some ''overloaded''\<rparr>) \<and>
   itemsByThread
     (sendMessageToThread_settle hookProps ''t1''
        (Resolved (emptyResponse\<lparr>resp_error := Some ''overloaded''\<rparr>)) sentExample) ''t1'' =
     itemsByThread sentExample ''t1'' @ [assistantMessage ''Turn failed to start: overloaded''] \<and>
   \<not> errorEmbedded emptyResponse \<and> responseTurnId emptyResponse = [] \<and>
   \<not> isProcessing (threadStatusById
      (sendMessageToThread_settle hookProps ''t1'' (Resolved emptyResponse) sentExample) ''t1'') \<and>
   \<not> errorEmbedded (turnResponse ''turn-1'') \<and> responseTurnId (turnResponse ''turn-1'') \<noteq> [] \<and>
   activeTurnIdByThread
     (sendMessageToThread_settle hookProps ''t1'' (Resolved (turnResponse ''turn-1'')) sentExample)
     ''t1'' = Some ''turn-1'' \<and>
   fst (sendMessageToThread_issue hookProps clock0 ''ws1'' ''t1'' ''hello'' [] None emptyState) \<and>
   activeTurnIdByThread
     (sendMessageToThread hookProps clock0 ''ws1'' ''t1'' ''hello'' [] None
        (Resolved (turnResponse ''turn-1'')) emptyState) ''t1'' = Some ''turn-1''"
proof -
  have e: "errorEmbedded (emptyResponse\<lparr>resp_error := Some ''overloaded''\<rparr>)"
    and x: "extractRpcErrorMessage (emptyResponse\<lparr>resp_error := Some ''overloaded''\<rparr>) =
      Some ''overloaded''"
    by (simp_all add: errorEmbedded_def extractRpcErrorMessage_def errorText_def emptyResponse_def)
  have n: "\<not> errorEmbedded emptyResponse \<and> responseTurnId emptyResponse = []"
    by (simp add: errorEmbedded_def responseTurnId_def responseTurn_def asString_def
        emptyResponse_def)
  have o: "\<not> errorEmbedded (turnResponse ''turn-1'') \<and> responseTurnId (turnResponse ''turn-1'') \<noteq> []"
    and i: "responseTurnId (turnResponse ''turn-1'') = ''turn-1''"
    by (simp_all add: errorEmbedded_def responseTurnId_def responseTurn_def asString_def
        turnResponse_def)
  have f: "fst (sendMessageToThread_issue hookProps clock0 ''ws1'' ''t1'' ''hello'' [] None
      emptyState)"
    and sn: "snd (sendMessageToThread_issue hookProps clock0 ''ws1'' ''t1'' ''hello'' [] None
      emptyState) = sentExample"
    by (simp_all add: sentExample_issued)
  note th1 = sendMessageToThread_reconciles
    [of hookProps "''t1''" "''x''" sentExample "emptyResponse\<lparr>resp_error := Some ''overloaded''\<rparr>"
      "\<lparr>res_error = None, res_turn = Some \<lparr>turn_id = Some ''turn-1''\<rparr>\<rparr>"
      "\<lparr>turn_id = Some ''turn-1''\<rparr>" "''turn-1''"
      clock0 "''ws1''" "''hello''" "[]" None "Resolved (turnResponse ''turn-1'')"]
  note th2 = sendMessageToThread_reconciles
    [of hookProps "''t1''" "''x''" sentExample emptyResponse
      "\<lparr>res_error = None, res_turn = Some \<lparr>turn_id = Some ''turn-1''\<rparr>\<rparr>"
      "\<lparr>turn_id = Some ''turn-1''\<rparr>" "''turn-1''"
      clock0 "''ws1''" "''hello''" "[]" None "Resolved (turnResponse ''turn-1'')"]
  note th3 = sendMessageToThread_reconciles
    [of hookProps "''t1''" "''x''" emptyState "turnResponse ''turn-1''"
      "\<lparr>res_error = None, res_turn = Some \<lparr>turn_id = Some ''turn-1''\<rparr>\<rparr>"
      "\<lparr>turn_id = Some ''turn-1''\<rparr>" "''turn-1''"
      clock0 "''ws1''" "''hello''" "[]" None "Resolved (turnResponse ''turn-1'')"]
  note th4 = sendMessageToThread_reconciles
    [of hookProps "''t1''" "''x''" sentExample "turnResponse ''turn-1''"
      "\<lparr>res_error = None, res_turn = Some \<lparr>turn_id = Some ''turn-1''\<rparr>\<rparr>"
      "\<lparr>turn_id = Some ''turn-1''\<rparr>" "''turn-1''"
      clock0 "''ws1''" "''hello''" "[]" None "Resolved (turnResponse ''turn-1'')"]
  have 1: "itemsByThread
     (sendMessageToThread_settle hookProps ''t1''
        (Resolved (emptyResponse\<lparr>resp_error := Some ''overloaded''\<rparr>)) sentExample) ''t1'' =
     itemsByThread sentExample ''t1'' @ [assistantMessage ''Turn failed to start: overloaded'']"
    using th1 e x by simp
  have 2: "\<not> isProcessing (threadStatusById
      (sendMessageToThread_settle hookProps ''t1'' (Resolved emptyResponse) sentExample) ''t1'')"
    using th2 n by blast
  have 3: "activeTurnIdByThread
     (sendMessageToThread_settle hookProps ''t1'' (Resolved (turnResponse ''turn-1'')) sentExample)
     ''t1'' = Some ''turn-1''"
    using th4 o i by simp
  have 4: "activeTurnIdByThread
     (sendMessageToThread hookProps clock0 ''ws1'' ''t1'' ''hello'' [] None
        (Resolved (turnResponse ''turn-1'')) emptyState) ''t1'' = Some ''turn-1''"
    using th3 f sn 3 by simp
  show ?thesis using e n o f 1 2 3 4 by blast
qed

text \<open>
  C1, as the claim states it, fails on the concrete race: the message was sent, the
  user interrupted before the start call resolved, the call resolved with \<open>turn-1\<close> and
  the turn-started event for \<open>turn-1\<close> arrived. At the end \<open>turn-1\<close> is recorded as the
  active turn of the thread, and two interrupt calls were made, the first carrying the
  placeholder \<open>pending\<close>.
\<close>

theorem race_example_records_turn:
  "fst (sendMessageToThread_issue hookProps clock0 ''ws1'' ''t1'' ''hello'' [] None emptyState) \<and>
   activeTurnIdByThread raceExample ''t1'' = Some ''turn-1'' \<and>
   filter isInterrupt (rpcLog raceExample) =
     [InterruptTurn ''ws1'' ''t1'' ''pending'', InterruptTurn ''ws1'' ''t1'' ''turn-1'']"
  by (simp add: raceExample_def sentExample_def sendMessageToThread_issue_def
      sendMessageToThread_settle_def finalTextOf_def resolveOption_def responseTurnId_def
      responseTurn_def asString_def onTurnStarted_def interruptTurn_def interruptTurn_issue_def
      interruptTurn_settle_def
      extractRpcErrorMessage_def trim_def isSpace_def store_defs sample_defs Let_def)

text \<open>
  C1, amended: let a message be sent to the active thread while no turn id is known for
  it, and let \<open>interruptTurn\<close> run before the start call settles. Then no turn id is
  recorded for the thread after the send and after the interrupt, and the thread is not
  processing after the interrupt. When the turn-started event with a non-empty turn id
  \<open>T\<close> arrives before the start call settles, the thread is afterwards not processing,
  has no active turn id and is out of the pending-interrupt set, and the interrupt calls
  made are two: the placeholder call carrying \<open>pending\<close>, issued by \<open>interruptTurn\<close>,
  and one call carrying \<open>T\<close>. In whichever order the event and the settling of the start
  call are handled, the thread stays not processing and the interrupt calls are those
  two. What the settling of the start call does to the active turn id is left open.
\<close>

theorem interrupt_before_start_race:
  assumes w: "activeWorkspace p = Some w" and t: "activeThreadId p = Some t" and n: "t \<noteq> []"
    and a: "activeTurnIdByThread s t = None"
    and sent: "sendMessageToThread_issue p clk w t body imgs opts s = (True, s1)"
    and T: "T \<noteq> []"
  shows "activeTurnIdByThread s1 t = None \<and>
         activeTurnIdByThread (interruptTurn p io s1) t = None \<and>
         \<not> isProcessing (threadStatusById (interruptTurn p io s1) t) \<and>
         activeTurnIdByThread (onTurnStarted w t T (interruptTurn p io s1)) t = None \<and>
         \<not> isProcessing (threadStatusById (onTurnStarted w t T (interruptTurn p io s1)) t) \<and>
         t \<notin> pendingInterrupts (onTurnStarted w t T (interruptTurn p io s1)) \<and>
         rpcLog (onTurnStarted w t T (interruptTurn p io s1)) =
           rpcLog s1 @ [InterruptTurn w t ''pending'', InterruptTurn w t T] \<and>
         \<not> isProcessing (threadStatusById
             (sendMessageToThread_settle p t so (onTurnStarted w t T (interruptTurn p io s1))) t) \<and>
         rpcLog (sendMessageToThread_settle p t so (onTurnStarted w t T (interruptTurn p io s1))) =
           rpcLog s1 @ [InterruptTurn w t ''pending'', InterruptTurn w t T] \<and>
         \<not> isProcessing (threadStatusById
             (onTurnStarted w t T (sendMessageToThread_settle p t so (interruptTurn p io s1))) t) \<and>
         rpcLog (onTurnStarted w t T (sendMessageToThread_settle p t so (interruptTurn p io s1))) =
           rpcLog s1 @ [InterruptTurn w t ''pending'', InterruptTurn w t T]"
proof -
  let ?s2 = "interruptTurn p io s1"
  let ?s3 = "onTurnStarted w t T ?s2"
  let ?s2' = "sendMessageToThread_settle p t so ?s2"
  have a1: "activeTurnIdByThread s1 t = None"
    using issue_activeTurn [of p clk w t body imgs opts s] sent a by simp
  note i = interruptTurn_unknown [OF w t n a1, of io]
  note st = onTurnStarted_pending [OF i(1) T, of w]
  have p': "t \<in> pendingInterrupts ?s2'" using i(1) by (simp add: settle_pending)
  note st' = onTurnStarted_pending [OF p' T, of w]
  have idle3: "\<not> isProcessing (threadStatusById ?s3 t)" using i(3) by (simp add: st(1))
  have idle2': "\<not> isProcessing (threadStatusById ?s2' t)" using i(3) by (rule settle_keeps_idle)
  show ?thesis
    using a1 i idle3 idle2' settle_keeps_idle [OF idle3, of p so]
    by (simp add: st st' settle_rpcLog)
qed

theorem interrupt_before_start_race_witness:
  "activeWorkspace hookProps = Some ''ws1'' \<and> activeThreadId hookProps = Some ''t1'' \<and>
   ''t1'' \<noteq> [] \<and> activeTurnIdByThread emptyState ''t1'' = None \<and>
   sendMessageToThread_issue hookProps clock0 ''ws1'' ''t1'' ''hello'' [] None emptyState =
     (True, sentExample) \<and>
   ''turn-1'' \<noteq> [] \<and>
   activeTurnIdByThread
     (onTurnStarted ''ws1'' ''t1'' ''turn-1'' (interruptTurn hookProps (Resolved ()) sentExample))
     ''t1'' = None \<and>
   \<not> isProcessing (threadStatusById
     (onTurnStarted ''ws1'' ''t1'' ''turn-1'' (interruptTurn hookProps (Resolved ()) sentExample))
     ''t1'') \<and>
   rpcLog
     (onTurnStarted ''ws1'' ''t1'' ''turn-1'' (interruptTurn hookProps (Resolved ()) sentExample)) =
     rpcLog sentExample @
       [InterruptTurn ''ws1'' ''t1'' ''pending'', InterruptTurn ''ws1'' ''t1'' ''turn-1'']"
proof -
  have w: "activeWorkspace hookProps = Some ''ws1''"
    and t: "activeThreadId hookProps = Some ''t1''"
    by (simp_all add: hookProps_def)
  have n: "''t1'' \<noteq> []" and T: "''turn-1'' \<noteq> []" by simp_all
  have a: "activeTurnIdByThread emptyState ''t1'' = None" by (simp add: emptyState_def)
  note th = interrupt_before_start_race [OF w t n a sentExample_issued T,
      of "Resolved ()" "Resolved (turnResponse ''turn-1'')"]
  show ?thesis using w t n a sentExample_issued T th by blast
qed

subsection \<open>Reviews\<close>

text \<open>
  C3 at a concrete input: after \<open>startReview\<close> on the idle thread \<open>t1\<close> the thread is
  reviewing and processing. When the turn-completed event arrives, or when the user
  interrupts, the thread is no longer processing but is still marked as reviewing.
\<close>

theorem review_flag_survives_completion_and_interrupt:
  "isReviewing (threadStatusById reviewStarted ''t1'') \<and>
   isProcessing (threadStatusById reviewStarted ''t1'') \<and>
   isReviewing (threadStatusById reviewCompleted ''t1'') \<and>
   \<not> isProcessing (threadStatusById reviewCompleted ''t1'') \<and>
   isReviewing (threadStatusById reviewInterrupted ''t1'') \<and>
   \<not> isProcessing (threadStatusById reviewInterrupted ''t1'')"
  by (simp add: reviewCompleted_def reviewInterrupted_def reviewStarted_def startReview_def
      startReview_issue_def startReview_settle_def onTurnCompleted_def interruptTurn_def
      interruptTurn_issue_def interruptTurn_settle_def
      extractRpcErrorMessage_def trim_def isSpace_def store_defs sample_defs Let_def)

end
